theory Spec2Isabelle
  imports Complex_Main
begin

section \<open>NumPy values\<close>

text \<open>
  The arrays of the program hold IEEE double-precision numbers. The model keeps the
  special values of that format (both infinities, the negative zero and NaN) and the
  rules by which NumPy produces them (a division by zero is a warning, never an
  exception), and takes every finite result exactly: rounding, overflow and underflow
  of finite results are not modelled. \<open>Fin 0\<close> is the positive zero.
\<close>

datatype npfloat = Fin real | NZero | PInf | NInf | NaN

fun is_nan :: "npfloat \<Rightarrow> bool" where
  "is_nan NaN = True"
| "is_nan _ = False"

fun is_inf :: "npfloat \<Rightarrow> bool" where
  "is_inf PInf = True"
| "is_inf NInf = True"
| "is_inf _ = False"

fun val :: "npfloat \<Rightarrow> real" where
  "val (Fin v) = v"
| "val _ = 0"

fun signbit :: "npfloat \<Rightarrow> bool" where
  "signbit (Fin v) = (v < 0)"
| "signbit NZero = True"
| "signbit PInf = False"
| "signbit NInf = True"
| "signbit NaN = False"

definition is_zero :: "npfloat \<Rightarrow> bool" where
  "is_zero a = (a = Fin 0 \<or> a = NZero)"

definition mk_zero :: "bool \<Rightarrow> npfloat" where
  "mk_zero s = (if s then NZero else Fin 0)"

definition mk_inf :: "bool \<Rightarrow> npfloat" where
  "mk_inf s = (if s then NInf else PInf)"

fun fneg :: "npfloat \<Rightarrow> npfloat" where
  "fneg (Fin v) = (if v = 0 then NZero else Fin (- v))"
| "fneg NZero = Fin 0"
| "fneg PInf = NInf"
| "fneg NInf = PInf"
| "fneg NaN = NaN"

definition fadd :: "npfloat \<Rightarrow> npfloat \<Rightarrow> npfloat" where
  "fadd a b =
     (if is_nan a \<or> is_nan b then NaN
      else if is_inf a \<and> is_inf b then (if a = b then a else NaN)
      else if is_inf a then a
      else if is_inf b then b
      else if val a + val b \<noteq> 0 then Fin (val a + val b)
      else if a = NZero \<and> b = NZero then NZero
      else Fin 0)"

definition fsub :: "npfloat \<Rightarrow> npfloat \<Rightarrow> npfloat" where
  "fsub a b = fadd a (fneg b)"

definition fmul :: "npfloat \<Rightarrow> npfloat \<Rightarrow> npfloat" where
  "fmul a b =
     (if is_nan a \<or> is_nan b then NaN
      else if (is_inf a \<and> is_zero b) \<or> (is_zero a \<and> is_inf b) then NaN
      else if is_inf a \<or> is_inf b then mk_inf (signbit a \<noteq> signbit b)
      else if val a * val b = 0 then mk_zero (signbit a \<noteq> signbit b)
      else Fin (val a * val b))"

definition fdiv :: "npfloat \<Rightarrow> npfloat \<Rightarrow> npfloat" where
  "fdiv a b =
     (if is_nan a \<or> is_nan b then NaN
      else if (is_inf a \<and> is_inf b) \<or> (is_zero a \<and> is_zero b) then NaN
      else if is_inf a then mk_inf (signbit a \<noteq> signbit b)
      else if is_inf b then mk_zero (signbit a \<noteq> signbit b)
      else if is_zero b then mk_inf (signbit a \<noteq> signbit b)
      else if is_zero a then mk_zero (signbit a \<noteq> signbit b)
      else Fin (val a / val b))"

fun fabs :: "npfloat \<Rightarrow> npfloat" where
  "fabs (Fin v) = Fin \<bar>v\<bar>"
| "fabs NZero = Fin 0"
| "fabs PInf = PInf"
| "fabs NInf = PInf"
| "fabs NaN = NaN"

text \<open>Comparisons: every comparison with NaN is false, the two zeros are equal.\<close>

definition fle :: "npfloat \<Rightarrow> npfloat \<Rightarrow> bool" where
  "fle a b =
     (\<not> is_nan a \<and> \<not> is_nan b \<and>
      (a = NInf \<or> b = PInf \<or> (\<not> is_inf a \<and> \<not> is_inf b \<and> val a \<le> val b)))"

definition flt :: "npfloat \<Rightarrow> npfloat \<Rightarrow> bool" where
  "flt a b =
     (\<not> is_nan a \<and> \<not> is_nan b \<and>
      ((a = NInf \<and> b \<noteq> NInf) \<or> (b = PInf \<and> a \<noteq> PInf) \<or>
       (\<not> is_inf a \<and> \<not> is_inf b \<and> val a < val b)))"

definition feq :: "npfloat \<Rightarrow> npfloat \<Rightarrow> bool" where
  "feq a b = (fle a b \<and> fle b a)"

text \<open>\<open>x ** n\<close> for a natural exponent.\<close>

fun np_power :: "npfloat \<Rightarrow> nat \<Rightarrow> npfloat" where
  "np_power a 0 = Fin 1"
| "np_power a (Suc n) = fmul a (np_power a n)"

text \<open>
  \<open>np.isclose(a, b)\<close> with the default tolerances, for a finite Python number \<open>b\<close>:
  \<open>|a - b| <= atol + rtol * |b|\<close>, or \<open>a == b\<close>.
\<close>

definition rtol :: real where
  "rtol = 1 / 10 ^ 5"

definition atol :: real where
  "atol = 1 / 10 ^ 8"

definition np_isclose :: "npfloat \<Rightarrow> real \<Rightarrow> bool" where
  "np_isclose a b =
     (fle (fabs (fsub a (Fin b))) (Fin (atol + rtol * \<bar>b\<bar>)) \<or> feq a (Fin b))"

text \<open>
  What a Python expression of this program evaluates to: \<open>None\<close> or a one-dimensional
  array of doubles.
\<close>

datatype pyval = PyNone | NdArray "npfloat list"

datatype pyerror =
    AssertionError string
  | IndexError
  | TypeError
  | ValueError
  | ZeroDivisionError
  | LinAlgError

text \<open>Python's \<open>a / b\<close> on Python numbers raises on a zero divisor.\<close>

definition py_truediv :: "real \<Rightarrow> real \<Rightarrow> pyerror + real" where
  "py_truediv a b = (if b = 0 then Inl ZeroDivisionError else Inr (a / b))"

text \<open>
  \<open>a + b\<close> on two one-dimensional arrays: elementwise when the lengths agree, an array
  of length one is stretched to the other's length, any other pair of lengths is
  NumPy's "operands could not be broadcast together", a \<open>ValueError\<close>.
\<close>

definition np_add :: "npfloat list \<Rightarrow> npfloat list \<Rightarrow> pyerror + npfloat list" where
  "np_add a b =
     (if length a = length b then Inr (map2 fadd a b)
      else if length a = 1 then Inr (map (fadd (a ! 0)) b)
      else if length b = 1 then Inr (map (\<lambda>u. fadd u (b ! 0)) a)
      else Inl ValueError)"

text \<open>\<open>v + b\<close> where \<open>v\<close> is what \<open>GetPotential\<close> returned and \<open>b\<close> is an array.\<close>

fun py_add_array :: "pyval \<Rightarrow> npfloat list \<Rightarrow> pyerror + npfloat list" where
  "py_add_array PyNone b = Inl TypeError"
| "py_add_array (NdArray a) b = np_add a b"

text \<open>\<open>s + v\<close> where \<open>s\<close> is a NumPy scalar.\<close>

fun py_scalar_add :: "npfloat \<Rightarrow> pyval \<Rightarrow> pyerror + npfloat list" where
  "py_scalar_add s PyNone = Inl TypeError"
| "py_scalar_add s (NdArray a) = Inr (map (fadd s) a)"

section \<open>PotentialsNew.py\<close>

text \<open>
  The class \<open>Potential\<close> and its subclasses, each with the arguments of its
  constructor. The parameters are finite Python numbers, and a number computed from
  them is taken exactly (a zero among them is the positive zero); the base class
  takes optional ones (their default is \<open>None\<close>).
\<close>

datatype potential =
    Potential "real option" "real option" "real option" "real option"
  | PotentialBarrier real real real real
  | HarmonicOscillator real real real real
  | FreeParticle real real
  | InfinitePotentialWell real real real
  | FinitePotentialWell real real real real
  | CoulombPotential
  | DoublePotentialWell real real real real real
  | DoubleSmoothPotential real

definition Potential_h :: real where
  "Potential_h = 662607015 / 10 ^ 42"

definition Potential_hbar :: real where
  "Potential_hbar = Potential_h / (2 * pi)"

definition Potential_e :: real where
  "Potential_e = 1602176634 / 10 ^ 28"

fun GetPotential :: "potential \<Rightarrow> npfloat list \<Rightarrow> pyval" where
  "GetPotential (Potential mass width center xmin) x = PyNone"
| "GetPotential (PotentialBarrier mass width xmin v0) x =
     (let xmax = xmin + width
      in NdArray (map (\<lambda>u. if fle (Fin xmin) u \<and> fle u (Fin xmax) then Fin v0 else Fin 0) x))"
| "GetPotential (HarmonicOscillator mass width omega center) x =
     NdArray (map (\<lambda>u. fmul (Fin (0.5 * mass * omega ^ 2)) (np_power (fsub u (Fin center)) 2)) x)"
| "GetPotential (FreeParticle mass momentum) x = NdArray (map (\<lambda>u. Fin 0) x)"
| "GetPotential (InfinitePotentialWell mass width xmin) x =
     (let xmax = xmin + width
      in NdArray (map (\<lambda>u. if flt u (Fin xmin) \<or> flt (Fin xmax) u then Fin 100000 else Fin 0) x))"
| "GetPotential (FinitePotentialWell mass width xmin v0) x =
     (let xmax = xmin + width
      in NdArray (map (\<lambda>u. if flt u (Fin xmin) \<or> flt (Fin xmax) u then Fin v0 else Fin 0) x))"
| "GetPotential CoulombPotential r = NdArray (map (\<lambda>u. fdiv (Fin (- 1)) u) r)"
| "GetPotential (DoublePotentialWell mass width xmin1 xmin2 v0) x =
     (let xmax1 = xmin1 + width; xmax2 = xmin2 + width
      in NdArray (map (\<lambda>u. if (fle (Fin xmin1) u \<and> fle u (Fin xmax1)) \<or>
                               (fle (Fin xmin2) u \<and> fle u (Fin xmax2))
                            then Fin 0 else Fin v0) x))"
| "GetPotential (DoubleSmoothPotential mass) x =
     (let E_0 = 5.1; C = 0.085; D = 15
      in NdArray (map (\<lambda>u. fadd (fmul (Fin E_0)
                                     (fsub (fmul (Fin C) (np_power u 4)) (np_power u 2)))
                                 (Fin D)) x))"

fun GroundStateEnergy :: "potential \<Rightarrow> pyerror + real option" where
  "GroundStateEnergy (Potential mass width center xmin) = Inr None"
| "GroundStateEnergy (PotentialBarrier mass width xmin v0) =
     map_sum id Some (py_truediv (Potential_h ^ 2) (8 * mass * width ^ 2))"
| "GroundStateEnergy (HarmonicOscillator mass width omega center) =
     Inr (Some (0.5 * Potential_hbar * omega))"
| "GroundStateEnergy (FreeParticle mass momentum) =
     map_sum id Some (py_truediv (momentum ^ 2) (2.0 * mass))"
| "GroundStateEnergy (InfinitePotentialWell mass width xmin) =
     map_sum id Some (py_truediv (Potential_h ^ 2) (8.0 * mass * width ^ 2))"
| "GroundStateEnergy (FinitePotentialWell mass width xmin v0) =
     map_sum id Some (py_truediv (Potential_h ^ 2) (8.0 * mass * width ^ 2))"
| "GroundStateEnergy CoulombPotential = Inr (Some (- 13.6 * Potential_e))"
| "GroundStateEnergy (DoublePotentialWell mass width xmin1 xmin2 v0) =
     map_sum id Some (py_truediv (Potential_h ^ 2) (8.0 * mass * (2.0 * width) ^ 2))"
| "GroundStateEnergy (DoubleSmoothPotential mass) = Inr None"

section \<open>HMatNew.py\<close>

text \<open>
  \<open>scipy.linalg.eigh_tridiagonal(d, e)\<close> is library code outside the repository: the
  solvers take it as a parameter, a function from the main diagonal and the
  off-diagonal to an exception or the pair of the eigenvalues and the rows of the
  eigenvector matrix.
\<close>

type_synonym spectrum = "npfloat list \<times> npfloat list list"

type_synonym eigh = "npfloat list \<Rightarrow> npfloat list \<Rightarrow> pyerror + spectrum"

subsection \<open>class Hamiltonian\<close>

text \<open>
  The attributes of an instance. The three diagonals do not exist before the first
  \<open>solve\<close>: they are \<open>None\<close> until then.
\<close>

record Hamiltonian =
  H_potential :: potential
  H_V :: pyval
  H_EMax :: "real option"
  H_x :: "npfloat list"
  H_upperDiag :: "npfloat list option"
  H_mainDiag :: "npfloat list option"
  H_lowerDiag :: "npfloat list option"

definition Hamiltonian_init :: "potential \<Rightarrow> npfloat list \<Rightarrow> pyerror + Hamiltonian" where
  "Hamiltonian_init potential x =
     (let V = GetPotential potential x
      in case GroundStateEnergy potential of
           Inl err \<Rightarrow> Inl err
         | Inr EMax \<Rightarrow>
             Inr \<lparr>H_potential = potential, H_V = V, H_EMax = EMax, H_x = x,
                  H_upperDiag = None, H_mainDiag = None, H_lowerDiag = None\<rparr>)"

text \<open>
  \<open>solve\<close> returns the instance as it is when the method ends, by a return or by an
  exception, and the exception or the returned pair.
\<close>

definition Hamiltonian_solve :: "eigh \<Rightarrow> Hamiltonian \<Rightarrow> Hamiltonian \<times> (pyerror + spectrum)" where
  "Hamiltonian_solve eigh_tridiagonal self =
     (if length (H_x self) < 2 then (self, Inl IndexError)
      else
        let deltaX = fsub (H_x self ! 1) (H_x self ! 0);
            alpha = fdiv (Fin 1) (fmul (Fin 2) (np_power deltaX 2));
            upper = replicate (length (H_x self) - 1) (fneg alpha);
            self1 = self\<lparr>H_upperDiag := Some upper\<rparr>
        in case py_scalar_add (fmul (Fin 2) alpha) (H_V self1) of
             Inl err \<Rightarrow> (self1, Inl err)
           | Inr main \<Rightarrow>
               let self2 = self1\<lparr>H_mainDiag := Some main\<rparr>;
                   lower = replicate (length (H_x self2) - 1) (fneg alpha);
                   self3 = self2\<lparr>H_lowerDiag := Some lower\<rparr>
               in (self3, eigh_tridiagonal main upper))"

subsection \<open>class RadialHamiltonian\<close>

record RadialHamiltonian =
  R_potential :: potential
  R_l :: real
  R_r :: "npfloat list"
  R_V :: "npfloat list"
  R_upperDiag :: "npfloat list option"
  R_mainDiag :: "npfloat list option"
  R_lowerDiag :: "npfloat list option"

text \<open>
  The constructor. The assertion comes first; \<open>r[0]\<close> raises on an empty array; the
  last statement evaluates the potential on the argument \<open>r\<close> and the centrifugal
  term on the attribute \<open>self.r\<close>, and adds the two arrays.
\<close>

definition RadialHamiltonian_init ::
    "potential \<Rightarrow> npfloat list \<Rightarrow> real \<Rightarrow> pyerror + RadialHamiltonian" where
  "RadialHamiltonian_init potential r l =
     (if \<not> l \<ge> 0 then
        Inl (AssertionError
          ''Orbital Angular Momentum, l, must be greater than or equal to zero.'')
      else if r = [] then Inl IndexError
      else
        let self_r = (if np_isclose (r ! 0) 0.0 then drop 1 r else r)
        in case py_add_array (GetPotential potential r)
                  (map (\<lambda>u. fdiv (Fin (l * (l + 1))) (fmul (Fin 2) (np_power u 2))) self_r) of
             Inl err \<Rightarrow> Inl err
           | Inr V \<Rightarrow>
               Inr \<lparr>R_potential = potential, R_l = l, R_r = self_r, R_V = V,
                    R_upperDiag = None, R_mainDiag = None, R_lowerDiag = None\<rparr>)"

definition RadialHamiltonian_solve ::
    "eigh \<Rightarrow> RadialHamiltonian \<Rightarrow> RadialHamiltonian \<times> (pyerror + spectrum)" where
  "RadialHamiltonian_solve eigh_tridiagonal self =
     (if length (R_r self) < 2 then (self, Inl IndexError)
      else
        let deltaR = fsub (R_r self ! 1) (R_r self ! 0);
            alpha = fdiv (Fin 1) (fmul (Fin 2) (np_power deltaR 2));
            N = length (R_r self);
            upper = replicate (length (R_r self) - 1) (fneg alpha);
            self1 = self\<lparr>R_upperDiag := Some upper\<rparr>;
            main = map (fadd (fmul (Fin 2) alpha)) (R_V self1);
            self2 = self1\<lparr>R_mainDiag := Some main\<rparr>;
            lower = replicate (length (R_r self2) - 1) (fneg alpha);
            self3 = self2\<lparr>R_lowerDiag := Some lower\<rparr>
        in (self3, eigh_tridiagonal main upper))"

subsection \<open>The eigensolver\<close>

text \<open>
  Modelled from the spec: \<open>eigh_tridiagonal\<close> is SciPy's, not part of the source. The
  spec's words for what it returns are "eigenvalues: ascending sequence of length N",
  N being the length of the main diagonal, with an off-diagonal of length N - 1; SciPy
  raises a \<open>ValueError\<close> for any other pair of lengths. A solver meets the contract when
  every result it returns is of that kind.
\<close>

definition eigh_contract :: "eigh \<Rightarrow> bool" where
  "eigh_contract f =
     (\<forall>d e w v. f d e = Inr (w, v) \<longrightarrow>
        length d = length e + 1 \<and> length w = length d \<and> sorted_wrt fle w)"

text \<open>
  A solver to run the model with: exact on a finite 2 x 2 matrix with two equal diagonal
  entries \<open>a\<close> and the off-diagonal entry \<open>c\<close>, whose eigenvalues are \<open>a - |c|\<close> and
  \<open>a + |c|\<close>. It raises \<open>ValueError\<close> on a wrong shape and on an entry that is not
  finite, as SciPy does, and \<open>LinAlgError\<close> on every other matrix.
\<close>

definition eigh_2x2 :: eigh where
  "eigh_2x2 d e =
     (if length d \<noteq> length e + 1 then Inl ValueError
      else if \<exists>u \<in> set (d @ e). is_nan u \<or> is_inf u then Inl ValueError
      else if length d = 2 \<and> val (d ! 0) = val (d ! 1) then
        (let a = val (d ! 0); c = val (e ! 0); s = 1 / sqrt 2
         in Inr ([Fin (a - \<bar>c\<bar>), Fin (a + \<bar>c\<bar>)],
                 if c \<le> 0 then [[Fin s, Fin s], [Fin s, Fin (- s)]]
                 else [[Fin s, Fin s], [Fin (- s), Fin s]]))
      else Inl LinAlgError)"

section \<open>Properties\<close>

subsection \<open>Shapes\<close>

lemma GetPotential_length:
  "GetPotential p x = NdArray a \<Longrightarrow> length a = length x"
  by (cases p) (auto simp: Let_def)

lemma GetPotential_None_iff:
  "GetPotential p x = PyNone \<longleftrightarrow> (\<exists>m w c xm. p = Potential m w c xm)"
  by (cases p) (auto simp: Let_def)

lemma fmul_one: "fmul a (Fin 1) = a"
  by (cases a) (auto simp: fmul_def is_zero_def mk_zero_def mk_inf_def)

lemma np_power_2: "np_power a 2 = fmul a a"
  by (simp add: numeral_2_eq_2 fmul_one)

lemma fsub_Fin: "a \<noteq> b \<Longrightarrow> fsub (Fin b) (Fin a) = Fin (b - a)"
  by (simp add: fsub_def fadd_def)

lemma fmul_Fin: "u \<noteq> 0 \<Longrightarrow> v \<noteq> 0 \<Longrightarrow> fmul (Fin u) (Fin v) = Fin (u * v)"
  by (simp add: fmul_def is_zero_def)

lemma fdiv_Fin: "u \<noteq> 0 \<Longrightarrow> v \<noteq> 0 \<Longrightarrow> fdiv (Fin u) (Fin v) = Fin (u / v)"
  by (simp add: fdiv_def is_zero_def)

lemma alpha_finite:
  "a \<noteq> b \<Longrightarrow>
   fdiv (Fin 1) (fmul (Fin 2) (fmul (fsub (Fin b) (Fin a)) (fsub (Fin b) (Fin a)))) =
     Fin (1 / (2 * (b - a) ^ 2))"
  by (simp add: fsub_Fin fmul_Fin fdiv_Fin power2_eq_square)

lemmas float_eval = fsub_def fadd_def fmul_def fdiv_def fle_def flt_def feq_def
  is_zero_def mk_zero_def mk_inf_def np_isclose_def atol_def rtol_def

lemma np_add_length:
  "np_add a b = Inr c \<Longrightarrow>
     length c = (if length a = length b then length a
                 else if length a = 1 then length b else length a)"
  by (auto simp: np_add_def split: if_splits)

lemma Hamiltonian_init_Inr:
  "Hamiltonian_init p x = Inr H \<Longrightarrow> H_x H = x \<and> H_V H = GetPotential p x"
  by (auto simp: Hamiltonian_init_def Let_def split: sum.splits)

lemma Hamiltonian_solve_Inr:
  assumes "snd (Hamiltonian_solve eigh H) = Inr (w, v)"
  shows "\<exists>a. H_V H = NdArray a \<and> 2 \<le> length (H_x H) \<and>
     eigh (map (fadd (fmul (Fin 2) (fdiv (Fin 1) (fmul (Fin 2)
              (np_power (fsub (H_x H ! 1) (H_x H ! 0)) 2))))) a)
          (replicate (length (H_x H) - 1) (fneg (fdiv (Fin 1) (fmul (Fin 2)
              (np_power (fsub (H_x H ! 1) (H_x H ! 0)) 2))))) = Inr (w, v)"
proof (cases "H_V H")
  case PyNone
  with assms show ?thesis
    by (simp add: Hamiltonian_solve_def Let_def split: if_splits)
next
  case (NdArray a)
  with assms show ?thesis
    by (simp add: Hamiltonian_solve_def Let_def split: if_splits)
qed

lemma RadialHamiltonian_solve_Inr:
  assumes "snd (RadialHamiltonian_solve eigh R) = Inr (w, v)"
  shows "2 \<le> length (R_r R) \<and>
     eigh (map (fadd (fmul (Fin 2) (fdiv (Fin 1) (fmul (Fin 2)
              (np_power (fsub (R_r R ! 1) (R_r R ! 0)) 2))))) (R_V R))
          (replicate (length (R_r R) - 1) (fneg (fdiv (Fin 1) (fmul (Fin 2)
              (np_power (fsub (R_r R ! 1) (R_r R ! 0)) 2))))) = Inr (w, v)"
  using assms by (simp add: RadialHamiltonian_solve_def Let_def split: if_splits)

lemma RadialHamiltonian_init_Inr:
  assumes "RadialHamiltonian_init p r l = Inr R"
  shows "\<exists>a. GetPotential p r = NdArray a \<and>
      R_r R = (if np_isclose (r ! 0) 0 then drop 1 r else r) \<and>
      np_add a (map (\<lambda>u. fdiv (Fin (l * (l + 1))) (fmul (Fin 2) (np_power u 2))) (R_r R))
        = Inr (R_V R)"
proof (cases "GetPotential p r")
  case PyNone
  with assms show ?thesis
    by (simp add: RadialHamiltonian_init_def Let_def split: if_splits)
next
  case (NdArray a)
  with assms show ?thesis
    by (auto simp: RadialHamiltonian_init_def Let_def split: if_splits sum.splits)
qed

lemma eigh_2x2_contract: "eigh_contract eigh_2x2"
  unfolding eigh_contract_def
proof (intro allI impI)
  fix d e w v
  assume "eigh_2x2 d e = Inr (w, v)"
  then show "length d = length e + 1 \<and> length w = length d \<and> sorted_wrt fle w"
    by (auto simp: eigh_2x2_def Let_def fle_def split: if_splits)
qed

subsection \<open>Evaluation on concrete inputs\<close>

lemma eigh_2x2_example:
  "eigh_2x2 [Fin 1, Fin 1] [Fin (- (1 / 2))] =
     Inr ([Fin (1 / 2), Fin (3 / 2)],
          [[Fin (1 / sqrt 2), Fin (1 / sqrt 2)], [Fin (1 / sqrt 2), Fin (- (1 / sqrt 2))]])"
  by (simp add: eigh_2x2_def Let_def)

lemma fadd_Fin: "u + v \<noteq> 0 \<Longrightarrow> fadd (Fin u) (Fin v) = Fin (u + v)"
  by (simp add: fadd_def)

lemma fadd_Fin_zero: "fadd (Fin 0) (Fin 0) = Fin 0"
  by (simp add: fadd_def)

lemma fdiv_zero_Fin: "0 < v \<Longrightarrow> fdiv (Fin 0) (Fin v) = Fin 0"
  by (simp add: fdiv_def is_zero_def mk_zero_def)

lemma np_isclose_Fin_0: "np_isclose (Fin u) 0 = (\<bar>u\<bar> \<le> 1 / 10 ^ 8)"
  by (cases "u = 0") (auto simp: np_isclose_def fsub_def fadd_def fle_def feq_def atol_def rtol_def)

lemmas float_simps = fsub_Fin fmul_Fin fdiv_Fin fadd_Fin fadd_Fin_zero fdiv_zero_Fin
  np_isclose_Fin_0 np_power_2

lemma Hamiltonian_solve_example:
  "Hamiltonian_solve eigh_2x2
     \<lparr>H_potential = FreeParticle 1 1, H_V = NdArray [Fin 0, Fin 0],
      H_EMax = Some (1 / 2), H_x = [Fin 0, Fin 1],
      H_upperDiag = None, H_mainDiag = None, H_lowerDiag = None\<rparr> =
   (\<lparr>H_potential = FreeParticle 1 1, H_V = NdArray [Fin 0, Fin 0],
      H_EMax = Some (1 / 2), H_x = [Fin 0, Fin 1],
      H_upperDiag = Some [Fin (- (1 / 2))], H_mainDiag = Some [Fin 1, Fin 1],
      H_lowerDiag = Some [Fin (- (1 / 2))]\<rparr>,
    Inr ([Fin (1 / 2), Fin (3 / 2)],
          [[Fin (1 / sqrt 2), Fin (1 / sqrt 2)], [Fin (1 / sqrt 2), Fin (- (1 / sqrt 2))]]))"
  by (simp add: Hamiltonian_solve_def Let_def float_simps eigh_2x2_example)

lemma RadialHamiltonian_solve_example:
  "RadialHamiltonian_solve eigh_2x2
     \<lparr>R_potential = FreeParticle 1 1, R_l = 0, R_r = [Fin 1, Fin 2], R_V = [Fin 0, Fin 0],
      R_upperDiag = None, R_mainDiag = None, R_lowerDiag = None\<rparr> =
   (\<lparr>R_potential = FreeParticle 1 1, R_l = 0, R_r = [Fin 1, Fin 2], R_V = [Fin 0, Fin 0],
      R_upperDiag = Some [Fin (- (1 / 2))], R_mainDiag = Some [Fin 1, Fin 1],
      R_lowerDiag = Some [Fin (- (1 / 2))]\<rparr>,
    Inr ([Fin (1 / 2), Fin (3 / 2)],
          [[Fin (1 / sqrt 2), Fin (1 / sqrt 2)], [Fin (1 / sqrt 2), Fin (- (1 / sqrt 2))]]))"
  by (simp add: RadialHamiltonian_solve_def Let_def float_simps eigh_2x2_example)

lemma Hamiltonian_init_example:
  "Hamiltonian_init (FreeParticle 1 1) [Fin 0, Fin 1] =
     Inr \<lparr>H_potential = FreeParticle 1 1, H_V = NdArray [Fin 0, Fin 0],
      H_EMax = Some (1 / 2), H_x = [Fin 0, Fin 1],
      H_upperDiag = None, H_mainDiag = None, H_lowerDiag = None\<rparr>"
  by (simp add: Hamiltonian_init_def py_truediv_def)

lemma RadialHamiltonian_init_example:
  "RadialHamiltonian_init (FreeParticle 1 1) [Fin 1, Fin 2] 0 =
     Inr \<lparr>R_potential = FreeParticle 1 1, R_l = 0, R_r = [Fin 1, Fin 2], R_V = [Fin 0, Fin 0],
      R_upperDiag = None, R_mainDiag = None, R_lowerDiag = None\<rparr>"
  by (simp add: RadialHamiltonian_init_def np_add_def Let_def float_simps)

subsection \<open>The angular-momentum index\<close>

text \<open>
  C6. For every potential and grid, constructing a RadialHamiltonian with l < 0 raises
  the assertion's error (the domain error of the constructor), whatever the potential
  and the grid are; for every l \<ge> 0 the construction never ends with that error: any
  failure it may have is not on account of l.
\<close>

theorem RadialHamiltonian_init_l:
  "(l < 0 \<longrightarrow> RadialHamiltonian_init p r l =
      Inl (AssertionError
        ''Orbital Angular Momentum, l, must be greater than or equal to zero.'')) \<and>
   (0 \<le> l \<longrightarrow> (\<forall>msg. RadialHamiltonian_init p r l \<noteq> Inl (AssertionError msg)))"
proof (intro conjI impI allI)
  assume "l < 0"
  then show "RadialHamiltonian_init p r l =
      Inl (AssertionError
        ''Orbital Angular Momentum, l, must be greater than or equal to zero.'')"
    by (simp add: RadialHamiltonian_init_def)
next
  fix msg assume l: "0 \<le> l"
  show "RadialHamiltonian_init p r l \<noteq> Inl (AssertionError msg)"
  proof (cases "GetPotential p r")
    case PyNone
    with l show ?thesis by (simp add: RadialHamiltonian_init_def Let_def)
  next
    case (NdArray a)
    with l show ?thesis
      by (simp add: RadialHamiltonian_init_def Let_def np_add_def split: sum.splits)
  qed
qed

theorem RadialHamiltonian_init_l_witness:
  "(- 1 :: real) < 0 \<and>
   RadialHamiltonian_init CoulombPotential [Fin 1, Fin 2] (- 1) =
     Inl (AssertionError
       ''Orbital Angular Momentum, l, must be greater than or equal to zero.'') \<and>
   (0 :: real) \<le> 1 \<and>
   (\<forall>msg. RadialHamiltonian_init CoulombPotential [Fin 1, Fin 2] 1 \<noteq>
      Inl (AssertionError msg))"
  using RadialHamiltonian_init_l [of "- 1" CoulombPotential "[Fin 1, Fin 2]"]
    RadialHamiltonian_init_l [of 1 CoulombPotential "[Fin 1, Fin 2]"]
  by simp

subsection \<open>The diagonals built by solve\<close>

text \<open>
  C3. For every grid of length N \<ge> 2 and every potential-value array V of length N,
  Hamiltonian.solve computes deltaX = grid[1] - grid[0] and alpha = 1/(2 deltaX^2) and
  stores a main diagonal of length N whose i-th entry is 2 alpha + V[i], and an upper
  and a lower off-diagonal of length N - 1 whose entries are all -alpha. The operations
  are those of the arrays (a zero deltaX gives an infinite alpha); when the first two
  grid points are finite and different, alpha is the number
  1/(2 (grid[1] - grid[0])^2).
\<close>

theorem Hamiltonian_solve_diagonals:
  fixes self :: Hamiltonian and eigh :: eigh and V :: "npfloat list"
  defines "deltaX \<equiv> fsub (H_x self ! 1) (H_x self ! 0)"
  defines "alpha \<equiv> fdiv (Fin 1) (fmul (Fin 2) (fmul deltaX deltaX))"
  defines "self' \<equiv> fst (Hamiltonian_solve eigh self)"
  assumes len: "2 \<le> length (H_x self)"
    and V: "H_V self = NdArray V"
    and lenV: "length V = length (H_x self)"
  shows "(\<exists>main. H_mainDiag self' = Some main \<and> length main = length (H_x self) \<and>
            (\<forall>i<length main. main ! i = fadd (fmul (Fin 2) alpha) (V ! i))) \<and>
         H_upperDiag self' = Some (replicate (length (H_x self) - 1) (fneg alpha)) \<and>
         H_lowerDiag self' = Some (replicate (length (H_x self) - 1) (fneg alpha)) \<and>
         (\<forall>a b. H_x self ! 0 = Fin a \<and> H_x self ! 1 = Fin b \<and> a \<noteq> b \<longrightarrow>
            alpha = Fin (1 / (2 * (b - a) ^ 2)))"
proof -
  have fin: "\<forall>a b. H_x self ! 0 = Fin a \<and> H_x self ! 1 = Fin b \<and> a \<noteq> b \<longrightarrow>
            alpha = Fin (1 / (2 * (b - a) ^ 2))"
    unfolding alpha_def deltaX_def by (auto simp: alpha_finite)
  have main: "H_mainDiag self' = Some (map (fadd (fmul (Fin 2) alpha)) V)"
    using len V unfolding self'_def alpha_def deltaX_def
    by (simp add: Hamiltonian_solve_def Let_def np_power_2)
  have up: "H_upperDiag self' = Some (replicate (length (H_x self) - 1) (fneg alpha))"
    using len V unfolding self'_def alpha_def deltaX_def
    by (simp add: Hamiltonian_solve_def Let_def np_power_2)
  have lo: "H_lowerDiag self' = Some (replicate (length (H_x self) - 1) (fneg alpha))"
    using len V unfolding self'_def alpha_def deltaX_def
    by (simp add: Hamiltonian_solve_def Let_def np_power_2)
  from main lenV
  have "\<exists>main. H_mainDiag self' = Some main \<and> length main = length (H_x self) \<and>
            (\<forall>i<length main. main ! i = fadd (fmul (Fin 2) alpha) (V ! i))"
    by simp
  with up lo fin show ?thesis by blast
qed

theorem Hamiltonian_solve_diagonals_witness:
  "2 \<le> length [Fin 0, Fin 1, Fin 2] \<and>
   H_mainDiag (fst (Hamiltonian_solve eigh_2x2
     \<lparr>H_potential = FreeParticle 1 1, H_V = NdArray [Fin 0, Fin 0, Fin 0],
      H_EMax = Some (1 / 2), H_x = [Fin 0, Fin 1, Fin 2],
      H_upperDiag = None, H_mainDiag = None, H_lowerDiag = None\<rparr>)) =
     Some [Fin 1, Fin 1, Fin 1] \<and>
   H_upperDiag (fst (Hamiltonian_solve eigh_2x2
     \<lparr>H_potential = FreeParticle 1 1, H_V = NdArray [Fin 0, Fin 0, Fin 0],
      H_EMax = Some (1 / 2), H_x = [Fin 0, Fin 1, Fin 2],
      H_upperDiag = None, H_mainDiag = None, H_lowerDiag = None\<rparr>)) =
     Some [Fin (- (1 / 2)), Fin (- (1 / 2))] \<and>
   H_lowerDiag (fst (Hamiltonian_solve eigh_2x2
     \<lparr>H_potential = FreeParticle 1 1, H_V = NdArray [Fin 0, Fin 0, Fin 0],
      H_EMax = Some (1 / 2), H_x = [Fin 0, Fin 1, Fin 2],
      H_upperDiag = None, H_mainDiag = None, H_lowerDiag = None\<rparr>)) =
     Some [Fin (- (1 / 2)), Fin (- (1 / 2))]"
  using Hamiltonian_solve_diagonals [of
     "\<lparr>H_potential = FreeParticle 1 1, H_V = NdArray [Fin 0, Fin 0, Fin 0],
      H_EMax = Some (1 / 2), H_x = [Fin 0, Fin 1, Fin 2],
      H_upperDiag = None, H_mainDiag = None, H_lowerDiag = None\<rparr>"
     "[Fin 0, Fin 0, Fin 0]" eigh_2x2]
  by (auto simp: float_eval numeral_2_eq_2 list_eq_iff_nth_eq less_Suc_eq)

subsection \<open>The Coulomb potential at the origin\<close>

text \<open>
  C9. For every grid, CoulombPotential.GetPotential returns an array as long as the
  grid and raises nothing (nor does the constructor of a Hamiltonian on it); at every
  point of the grid that is zero the returned value is infinite: minus infinity at
  0.0, plus infinity at the negative zero.
\<close>

theorem CoulombPotential_zero_division:
  "\<exists>V H. GetPotential CoulombPotential r = NdArray V \<and>
         Hamiltonian_init CoulombPotential r = Inr H \<and> H_V H = NdArray V \<and>
         length V = length r \<and>
         (\<forall>i<length r. (r ! i = Fin 0 \<longrightarrow> V ! i = NInf) \<and>
                        (r ! i = NZero \<longrightarrow> V ! i = PInf) \<and>
                        (is_zero (r ! i) \<longrightarrow> is_inf (V ! i)))"
  by (auto simp: Hamiltonian_init_def fdiv_def is_zero_def mk_inf_def)

theorem CoulombPotential_zero_division_witness:
  "GetPotential CoulombPotential [Fin 0, Fin 1, NZero] = NdArray [NInf, Fin (- 1), PInf] \<and>
   [Fin 0, Fin 1, NZero] ! 0 = Fin 0 \<and> is_zero ([Fin 0, Fin 1, NZero] ! 2) \<and>
   is_inf ([NInf, Fin (- 1), PInf] ! 0) \<and> is_inf ([NInf, Fin (- 1), PInf] ! 2)"
  using CoulombPotential_zero_division [of "[Fin 0, Fin 1, NZero]"]
  by (simp add: float_eval)

subsection \<open>What solve writes\<close>

text \<open>
  C10. For every Hamiltonian and every RadialHamiltonian instance, solve leaves the
  stored grid, the stored potential values and the potential unchanged: the instance
  after the call, whether it returned or raised, is the instance before it with new
  values in upperDiag, mainDiag and lowerDiag at most.
\<close>

theorem solve_frame:
  "H_x (fst (Hamiltonian_solve eigh H)) = H_x H \<and>
   H_V (fst (Hamiltonian_solve eigh H)) = H_V H \<and>
   H_potential (fst (Hamiltonian_solve eigh H)) = H_potential H \<and>
   (\<exists>u m lo. fst (Hamiltonian_solve eigh H) =
      H\<lparr>H_upperDiag := u, H_mainDiag := m, H_lowerDiag := lo\<rparr>) \<and>
   R_r (fst (RadialHamiltonian_solve eigh R)) = R_r R \<and>
   R_V (fst (RadialHamiltonian_solve eigh R)) = R_V R \<and>
   R_potential (fst (RadialHamiltonian_solve eigh R)) = R_potential R \<and>
   (\<exists>u m lo. fst (RadialHamiltonian_solve eigh R) =
      R\<lparr>R_upperDiag := u, R_mainDiag := m, R_lowerDiag := lo\<rparr>)"
proof -
  have H: "\<exists>u m lo. fst (Hamiltonian_solve eigh H) =
      H\<lparr>H_upperDiag := u, H_mainDiag := m, H_lowerDiag := lo\<rparr>"
  proof (cases "length (H_x H) < 2")
    case True
    then have "fst (Hamiltonian_solve eigh H) =
        H\<lparr>H_upperDiag := H_upperDiag H, H_mainDiag := H_mainDiag H,
          H_lowerDiag := H_lowerDiag H\<rparr>"
      by (simp add: Hamiltonian_solve_def)
    then show ?thesis by blast
  next
    case False
    show ?thesis
    proof (cases "H_V H")
      case PyNone
      with False have "fst (Hamiltonian_solve eigh H) =
        H\<lparr>H_upperDiag := Some (replicate (length (H_x H) - 1)
             (fneg (fdiv (Fin 1)
                (fmul (Fin 2) (np_power (fsub (H_x H ! 1) (H_x H ! 0)) 2))))),
           H_mainDiag := H_mainDiag H, H_lowerDiag := H_lowerDiag H\<rparr>"
        by (simp add: Hamiltonian_solve_def Let_def)
      then show ?thesis by blast
    next
      case (NdArray a)
      with False show ?thesis
        by (simp add: Hamiltonian_solve_def Let_def) blast
    qed
  qed
  have R: "\<exists>u m lo. fst (RadialHamiltonian_solve eigh R) =
      R\<lparr>R_upperDiag := u, R_mainDiag := m, R_lowerDiag := lo\<rparr>"
  proof (cases "length (R_r R) < 2")
    case True
    then have "fst (RadialHamiltonian_solve eigh R) =
        R\<lparr>R_upperDiag := R_upperDiag R, R_mainDiag := R_mainDiag R,
          R_lowerDiag := R_lowerDiag R\<rparr>"
      by (simp add: RadialHamiltonian_solve_def)
    then show ?thesis by blast
  next
    case False
    then show ?thesis
      by (simp add: RadialHamiltonian_solve_def Let_def) blast
  qed
  from H obtain u m lo where h: "fst (Hamiltonian_solve eigh H) =
      H\<lparr>H_upperDiag := u, H_mainDiag := m, H_lowerDiag := lo\<rparr>" by blast
  from R obtain u' m' lo' where r: "fst (RadialHamiltonian_solve eigh R) =
      R\<lparr>R_upperDiag := u', R_mainDiag := m', R_lowerDiag := lo'\<rparr>" by blast
  show ?thesis using H R by (simp add: h r)
qed

theorem solve_frame_witness:
  "H_x (fst (Hamiltonian_solve eigh_2x2
     \<lparr>H_potential = FreeParticle 1 1, H_V = NdArray [Fin 0, Fin 0],
      H_EMax = Some (1 / 2), H_x = [Fin 0, Fin 1],
      H_upperDiag = None, H_mainDiag = None, H_lowerDiag = None\<rparr>)) = [Fin 0, Fin 1] \<and>
   H_V (fst (Hamiltonian_solve eigh_2x2
     \<lparr>H_potential = FreeParticle 1 1, H_V = NdArray [Fin 0, Fin 0],
      H_EMax = Some (1 / 2), H_x = [Fin 0, Fin 1],
      H_upperDiag = None, H_mainDiag = None, H_lowerDiag = None\<rparr>)) =
     NdArray [Fin 0, Fin 0] \<and>
   H_potential (fst (Hamiltonian_solve eigh_2x2
     \<lparr>H_potential = FreeParticle 1 1, H_V = NdArray [Fin 0, Fin 0],
      H_EMax = Some (1 / 2), H_x = [Fin 0, Fin 1],
      H_upperDiag = None, H_mainDiag = None, H_lowerDiag = None\<rparr>)) = FreeParticle 1 1 \<and>
   R_r (fst (RadialHamiltonian_solve eigh_2x2
     \<lparr>R_potential = FreeParticle 1 1, R_l = 0, R_r = [Fin 1, Fin 2], R_V = [Fin 0, Fin 0],
      R_upperDiag = None, R_mainDiag = None, R_lowerDiag = None\<rparr>)) = [Fin 1, Fin 2] \<and>
   R_V (fst (RadialHamiltonian_solve eigh_2x2
     \<lparr>R_potential = FreeParticle 1 1, R_l = 0, R_r = [Fin 1, Fin 2], R_V = [Fin 0, Fin 0],
      R_upperDiag = None, R_mainDiag = None, R_lowerDiag = None\<rparr>)) = [Fin 0, Fin 0] \<and>
   R_potential (fst (RadialHamiltonian_solve eigh_2x2
     \<lparr>R_potential = FreeParticle 1 1, R_l = 0, R_r = [Fin 1, Fin 2], R_V = [Fin 0, Fin 0],
      R_upperDiag = None, R_mainDiag = None, R_lowerDiag = None\<rparr>)) = FreeParticle 1 1"
  using solve_frame [of eigh_2x2
     "\<lparr>H_potential = FreeParticle 1 1, H_V = NdArray [Fin 0, Fin 0],
      H_EMax = Some (1 / 2), H_x = [Fin 0, Fin 1],
      H_upperDiag = None, H_mainDiag = None, H_lowerDiag = None\<rparr>"
     "\<lparr>R_potential = FreeParticle 1 1, R_l = 0, R_r = [Fin 1, Fin 2], R_V = [Fin 0, Fin 0],
      R_upperDiag = None, R_mainDiag = None, R_lowerDiag = None\<rparr>"]
  by simp

subsection \<open>Solving twice\<close>

text \<open>
  C8. For every Hamiltonian (and RadialHamiltonian) instance that is not modified
  between the calls, a second solve returns what the first returned, eigenvalues and
  eigenvectors alike, and leaves the instance as the first left it: the second call
  hands the eigensolver the same two diagonals. The eigensolver is a function of its
  arguments here.
\<close>

theorem solve_twice:
  "Hamiltonian_solve eigh (fst (Hamiltonian_solve eigh H)) = Hamiltonian_solve eigh H \<and>
   RadialHamiltonian_solve eigh (fst (RadialHamiltonian_solve eigh R)) =
     RadialHamiltonian_solve eigh R"
proof
  show "Hamiltonian_solve eigh (fst (Hamiltonian_solve eigh H)) = Hamiltonian_solve eigh H"
    by (cases "H_V H") (simp_all add: Hamiltonian_solve_def Let_def)
  show "RadialHamiltonian_solve eigh (fst (RadialHamiltonian_solve eigh R)) =
     RadialHamiltonian_solve eigh R"
    by (simp add: RadialHamiltonian_solve_def Let_def)
qed

theorem solve_twice_witness:
  "Hamiltonian_solve eigh_2x2 (fst (Hamiltonian_solve eigh_2x2
     \<lparr>H_potential = FreeParticle 1 1, H_V = NdArray [Fin 0, Fin 0],
      H_EMax = Some (1 / 2), H_x = [Fin 0, Fin 1],
      H_upperDiag = None, H_mainDiag = None, H_lowerDiag = None\<rparr>)) =
   (\<lparr>H_potential = FreeParticle 1 1, H_V = NdArray [Fin 0, Fin 0],
      H_EMax = Some (1 / 2), H_x = [Fin 0, Fin 1],
      H_upperDiag = Some [Fin (- (1 / 2))], H_mainDiag = Some [Fin 1, Fin 1],
      H_lowerDiag = Some [Fin (- (1 / 2))]\<rparr>,
    Inr ([Fin (1 / 2), Fin (3 / 2)],
          [[Fin (1 / sqrt 2), Fin (1 / sqrt 2)], [Fin (1 / sqrt 2), Fin (- (1 / sqrt 2))]])) \<and>
   RadialHamiltonian_solve eigh_2x2 (fst (RadialHamiltonian_solve eigh_2x2
     \<lparr>R_potential = FreeParticle 1 1, R_l = 0, R_r = [Fin 1, Fin 2], R_V = [Fin 0, Fin 0],
      R_upperDiag = None, R_mainDiag = None, R_lowerDiag = None\<rparr>)) =
   (\<lparr>R_potential = FreeParticle 1 1, R_l = 0, R_r = [Fin 1, Fin 2], R_V = [Fin 0, Fin 0],
      R_upperDiag = Some [Fin (- (1 / 2))], R_mainDiag = Some [Fin 1, Fin 1],
      R_lowerDiag = Some [Fin (- (1 / 2))]\<rparr>,
    Inr ([Fin (1 / 2), Fin (3 / 2)],
          [[Fin (1 / sqrt 2), Fin (1 / sqrt 2)], [Fin (1 / sqrt 2), Fin (- (1 / sqrt 2))]]))"
  using solve_twice [of eigh_2x2
     "\<lparr>H_potential = FreeParticle 1 1, H_V = NdArray [Fin 0, Fin 0],
      H_EMax = Some (1 / 2), H_x = [Fin 0, Fin 1],
      H_upperDiag = None, H_mainDiag = None, H_lowerDiag = None\<rparr>"
     "\<lparr>R_potential = FreeParticle 1 1, R_l = 0, R_r = [Fin 1, Fin 2], R_V = [Fin 0, Fin 0],
      R_upperDiag = None, R_mainDiag = None, R_lowerDiag = None\<rparr>"]
  by (simp only: Hamiltonian_solve_example RadialHamiltonian_solve_example)

subsection \<open>The eigenvalues returned\<close>

text \<open>
  C7. For every grid and potential that the constructor and solve accept (the
  constructor returns an instance and solve returns a result on it), with an
  eigensolver that meets its contract, solve returns as many eigenvalues as the grid
  has points, in non-decreasing order. This holds for Hamiltonian and for
  RadialHamiltonian, whose working grid is then the grid it was given.
\<close>

theorem solve_eigenvalues:
  assumes c: "eigh_contract eigh"
  shows "(Hamiltonian_init p x = Inr H \<and> snd (Hamiltonian_solve eigh H) = Inr (w, v) \<longrightarrow>
            length w = length x \<and> sorted_wrt fle w) \<and>
         (RadialHamiltonian_init p r l = Inr R \<and>
          snd (RadialHamiltonian_solve eigh R) = Inr (w', v') \<longrightarrow>
            R_r R = r \<and> length w' = length r \<and> sorted_wrt fle w')"
proof (intro conjI impI)
  assume a: "Hamiltonian_init p x = Inr H \<and> snd (Hamiltonian_solve eigh H) = Inr (w, v)"
  then obtain V where V: "H_V H = NdArray V" and len: "2 \<le> length (H_x H)"
    and e: "\<exists>d. eigh d (replicate (length (H_x H) - 1) (fneg (fdiv (Fin 1) (fmul (Fin 2)
              (np_power (fsub (H_x H ! 1) (H_x H ! 0)) 2))))) = Inr (w, v)"
    using Hamiltonian_solve_Inr [of eigh H w v] by blast
  from e c len have "length w = length (H_x H)" "sorted_wrt fle w"
    unfolding eigh_contract_def by fastforce+
  with a show "length w = length x" "sorted_wrt fle w"
    using Hamiltonian_init_Inr [of p x H] by simp_all
next
  assume a: "RadialHamiltonian_init p r l = Inr R \<and>
          snd (RadialHamiltonian_solve eigh R) = Inr (w', v')"
  from a have len: "2 \<le> length (R_r R)"
    and e: "eigh (map (fadd (fmul (Fin 2) (fdiv (Fin 1) (fmul (Fin 2)
              (np_power (fsub (R_r R ! 1) (R_r R ! 0)) 2))))) (R_V R))
          (replicate (length (R_r R) - 1) (fneg (fdiv (Fin 1) (fmul (Fin 2)
              (np_power (fsub (R_r R ! 1) (R_r R ! 0)) 2))))) = Inr (w', v')"
    using RadialHamiltonian_solve_Inr [of eigh R w' v'] by blast+
  from e c len have lw: "length w' = length (R_V R)"
    and lv: "length (R_V R) = length (R_r R)"
    and s: "sorted_wrt fle w'"
    unfolding eigh_contract_def by fastforce+
  from a obtain g where g: "GetPotential p r = NdArray g"
    and rr: "R_r R = (if np_isclose (r ! 0) 0 then drop 1 r else r)"
    and add: "np_add g
        (map (\<lambda>u. fdiv (Fin (l * (l + 1))) (fmul (Fin 2) (np_power u 2))) (R_r R))
        = Inr (R_V R)"
    using RadialHamiltonian_init_Inr [of p r l R] by blast
  have lg: "length g = length r" using g by (rule GetPotential_length)
  have "R_r R = r"
  proof (rule ccontr)
    assume n: "R_r R \<noteq> r"
    with rr have d: "R_r R = drop 1 r" by (simp split: if_splits)
    with len have "3 \<le> length r" by simp
    with d lg lv np_add_length [OF add] show False by (simp split: if_splits)
  qed
  with lw lv s show "R_r R = r" "length w' = length r" "sorted_wrt fle w'" by simp_all
qed

theorem solve_eigenvalues_witness:
  "eigh_contract eigh_2x2 \<and>
   Hamiltonian_init (FreeParticle 1 1) [Fin 0, Fin 1] =
     Inr \<lparr>H_potential = FreeParticle 1 1, H_V = NdArray [Fin 0, Fin 0],
      H_EMax = Some (1 / 2), H_x = [Fin 0, Fin 1],
      H_upperDiag = None, H_mainDiag = None, H_lowerDiag = None\<rparr> \<and>
   snd (Hamiltonian_solve eigh_2x2
     \<lparr>H_potential = FreeParticle 1 1, H_V = NdArray [Fin 0, Fin 0],
      H_EMax = Some (1 / 2), H_x = [Fin 0, Fin 1],
      H_upperDiag = None, H_mainDiag = None, H_lowerDiag = None\<rparr>) =
     Inr ([Fin (1 / 2), Fin (3 / 2)],
          [[Fin (1 / sqrt 2), Fin (1 / sqrt 2)], [Fin (1 / sqrt 2), Fin (- (1 / sqrt 2))]]) \<and>
   RadialHamiltonian_init (FreeParticle 1 1) [Fin 1, Fin 2] 0 =
     Inr \<lparr>R_potential = FreeParticle 1 1, R_l = 0, R_r = [Fin 1, Fin 2], R_V = [Fin 0, Fin 0],
      R_upperDiag = None, R_mainDiag = None, R_lowerDiag = None\<rparr> \<and>
   snd (RadialHamiltonian_solve eigh_2x2
     \<lparr>R_potential = FreeParticle 1 1, R_l = 0, R_r = [Fin 1, Fin 2], R_V = [Fin 0, Fin 0],
      R_upperDiag = None, R_mainDiag = None, R_lowerDiag = None\<rparr>) =
     Inr ([Fin (1 / 2), Fin (3 / 2)],
          [[Fin (1 / sqrt 2), Fin (1 / sqrt 2)], [Fin (1 / sqrt 2), Fin (- (1 / sqrt 2))]]) \<and>
   length [Fin (1 / 2), Fin (3 / 2)] = length [Fin 0, Fin 1 :: npfloat] \<and>
   sorted_wrt fle [Fin (1 / 2), Fin (3 / 2)] \<and>
   length [Fin (1 / 2), Fin (3 / 2)] = length [Fin 1, Fin 2 :: npfloat]"
  using solve_eigenvalues [OF eigh_2x2_contract,
      where p = "FreeParticle 1 1" and x = "[Fin 0, Fin 1]"
        and H = "\<lparr>H_potential = FreeParticle 1 1, H_V = NdArray [Fin 0, Fin 0],
           H_EMax = Some (1 / 2), H_x = [Fin 0, Fin 1],
           H_upperDiag = None, H_mainDiag = None, H_lowerDiag = None\<rparr>"
        and w = "[Fin (1 / 2), Fin (3 / 2)]"
        and v = "[[Fin (1 / sqrt 2), Fin (1 / sqrt 2)],
                  [Fin (1 / sqrt 2), Fin (- (1 / sqrt 2))]]"
        and r = "[Fin 1, Fin 2]" and l = 0
        and R = "\<lparr>R_potential = FreeParticle 1 1, R_l = 0, R_r = [Fin 1, Fin 2],
           R_V = [Fin 0, Fin 0],
           R_upperDiag = None, R_mainDiag = None, R_lowerDiag = None\<rparr>"
        and w' = "[Fin (1 / 2), Fin (3 / 2)]"
        and v' = "[[Fin (1 / sqrt 2), Fin (1 / sqrt 2)],
                   [Fin (1 / sqrt 2), Fin (- (1 / sqrt 2))]]"]
    eigh_2x2_contract
  by (simp add: Hamiltonian_init_example RadialHamiltonian_init_example
      Hamiltonian_solve_example RadialHamiltonian_solve_example)

subsection \<open>Grids shorter than two points\<close>

text \<open>
  C4, as the code has it. For every potential and every grid of length < 2, the
  constructor of Hamiltonian does not look at the length of the grid: it fails only
  when GroundStateEnergy of the potential raises, and otherwise returns an instance
  holding the grid. On such an instance solve raises an IndexError at the access
  grid[1] of the deltaX computation and leaves the instance as it was: no diagonal is
  built and the eigensolver is not called.
\<close>

theorem Hamiltonian_short_grid:
  assumes "length x < 2"
  shows "case GroundStateEnergy p of
           Inl err \<Rightarrow> Hamiltonian_init p x = Inl err
         | Inr E \<Rightarrow>
             (\<exists>self. Hamiltonian_init p x = Inr self \<and> H_x self = x \<and>
                Hamiltonian_solve eigh self = (self, Inl IndexError))"
  using assms
  by (simp add: Hamiltonian_init_def Hamiltonian_solve_def Let_def split: sum.splits)

theorem Hamiltonian_short_grid_witness:
  "length ([] :: npfloat list) < 2 \<and>
   GroundStateEnergy CoulombPotential = Inr (Some (- 13.6 * Potential_e)) \<and>
   (\<exists>self. Hamiltonian_init CoulombPotential [] = Inr self \<and> H_x self = [] \<and>
      Hamiltonian_solve eigh_2x2 self = (self, Inl IndexError))"
  using Hamiltonian_short_grid [of "[]" CoulombPotential eigh_2x2]
  by simp

text \<open>
  The claim as stated fails on the grid [1.0] with a free particle: the constructor
  accepts the grid, and the error of solve is the IndexError of the subscript.
\<close>

theorem Hamiltonian_short_grid_counterexample:
  "Hamiltonian_init (FreeParticle 1 1) [Fin 1] =
     Inr \<lparr>H_potential = FreeParticle 1 1, H_V = NdArray [Fin 0],
       H_EMax = Some (1 / 2), H_x = [Fin 1],
       H_upperDiag = None, H_mainDiag = None, H_lowerDiag = None\<rparr> \<and>
   Hamiltonian_solve eigh_2x2
     \<lparr>H_potential = FreeParticle 1 1, H_V = NdArray [Fin 0],
       H_EMax = Some (1 / 2), H_x = [Fin 1],
       H_upperDiag = None, H_mainDiag = None, H_lowerDiag = None\<rparr> =
     (\<lparr>H_potential = FreeParticle 1 1, H_V = NdArray [Fin 0],
       H_EMax = Some (1 / 2), H_x = [Fin 1],
       H_upperDiag = None, H_mainDiag = None, H_lowerDiag = None\<rparr>, Inl IndexError)"
  by (simp add: Hamiltonian_init_def Hamiltonian_solve_def py_truediv_def)

subsection \<open>The base class\<close>

text \<open>
  C5, as the code has it. For every grid and whatever its parameters are, GetPotential
  and GroundStateEnergy of the base class Potential return None and raise nothing; a
  subclass that does not override one of them (DoubleSmoothPotential has no
  GroundStateEnergy) returns None there too, and the constructor of Hamiltonian on the
  base class returns an instance whose V and EMax are None.
\<close>

theorem Potential_base_returns_None:
  "GetPotential (Potential mass width center xmin) x = PyNone \<and>
   GroundStateEnergy (Potential mass width center xmin) = Inr None \<and>
   GroundStateEnergy (DoubleSmoothPotential m) = Inr None \<and>
   Hamiltonian_init (Potential mass width center xmin) x =
     Inr \<lparr>H_potential = Potential mass width center xmin, H_V = PyNone,
       H_EMax = None, H_x = x,
       H_upperDiag = None, H_mainDiag = None, H_lowerDiag = None\<rparr>"
  by (simp add: Hamiltonian_init_def)

theorem Potential_base_returns_None_witness:
  "GetPotential (Potential (Some 1) (Some 2) None (Some 0)) [Fin 3] = PyNone \<and>
   GroundStateEnergy (Potential (Some 1) (Some 2) None (Some 0)) = Inr None \<and>
   GroundStateEnergy (DoubleSmoothPotential 1) = Inr None"
  using Potential_base_returns_None [of "Some 1" "Some 2" None "Some 0" "[Fin 3]" 1]
  by simp

text \<open>
  The claim as stated fails on the base class with its default parameters and the
  grid [0.0, 1.0]: both operations return None.
\<close>

theorem Potential_base_counterexample:
  "GetPotential (Potential None None None None) [Fin 0, Fin 1] = PyNone \<and>
   GroundStateEnergy (Potential None None None None) = Inr None"
  by simp

subsection \<open>A radial grid that starts at the origin\<close>

text \<open>
  C1, at its failing inputs. With a free particle and l = 1, the grid [0.0, 1.0, 2.0]
  makes the constructor of RadialHamiltonian raise a ValueError: the potential is
  evaluated on the three points of the argument and the centrifugal term on the two
  points of the trimmed grid, and the two arrays cannot be added. On the grid
  [0.0, 1.0] the sum is stretched to two entries, [1.0, 1.0], over a working grid of
  one point, where the potential on the trimmed grid plus the centrifugal term is the
  one entry [1.0].
\<close>

theorem RadialHamiltonian_init_trimmed_grid:
  "RadialHamiltonian_init (FreeParticle 1 1) [Fin 0, Fin 1, Fin 2] 1 = Inl ValueError \<and>
   RadialHamiltonian_init (FreeParticle 1 1) [Fin 0, Fin 1] 1 =
     Inr \<lparr>R_potential = FreeParticle 1 1, R_l = 1, R_r = [Fin 1], R_V = [Fin 1, Fin 1],
       R_upperDiag = None, R_mainDiag = None, R_lowerDiag = None\<rparr>"
  by (simp add: RadialHamiltonian_init_def np_add_def Let_def float_simps)

text \<open>
  C2, where it fails. For every potential, every l \<ge> 0 and every grid of length
  N \<ge> 3 whose first point is 0.0, the constructor of RadialHamiltonian raises: a
  ValueError from the sum of an array of length N and one of length N - 1, or a
  TypeError when the potential is the base class, whose GetPotential returns None.
\<close>

theorem RadialHamiltonian_init_zero_first_point:
  assumes "3 \<le> length r" and "r ! 0 = Fin 0" and "0 \<le> l"
  shows "RadialHamiltonian_init p r l =
     Inl (if GetPotential p r = PyNone then TypeError else ValueError)"
proof (cases "GetPotential p r")
  case PyNone
  with assms show ?thesis
    by (auto simp: RadialHamiltonian_init_def Let_def)
next
  case (NdArray a)
  then have "length a = length r" by (rule GetPotential_length)
  with assms NdArray show ?thesis
    by (auto simp: RadialHamiltonian_init_def Let_def np_isclose_Fin_0 np_add_def)
qed

theorem RadialHamiltonian_init_zero_first_point_witness:
  "3 \<le> length [Fin 0, Fin (1 / 2), Fin 1, Fin (3 / 2)] \<and>
   [Fin 0, Fin (1 / 2), Fin 1, Fin (3 / 2)] ! 0 = Fin 0 \<and> (0 :: real) \<le> 0 \<and>
   RadialHamiltonian_init CoulombPotential [Fin 0, Fin (1 / 2), Fin 1, Fin (3 / 2)] 0 =
     Inl ValueError"
  using RadialHamiltonian_init_zero_first_point
    [of "[Fin 0, Fin (1 / 2), Fin 1, Fin (3 / 2)]" 0 CoulombPotential]
  by simp

end
